theory Spec2Isabelle
  imports Complex_Main
begin

section \<open>JavaScript values\<close>

text \<open>
  The helpers of \<^verbatim>\<open>src/convex/schema.ts\<close> take and return values of type \<^verbatim>\<open>any\<close>.
  A value is one of the kinds that \<^verbatim>\<open>typeof\<close> tells apart; an object nested inside a
  value is an association list of its own properties.
\<close>

datatype jsval =
    JUndefined
  | JNull
  | JBool bool
  | JNum real
  | JBigInt int
  | JStr string
  | JSymbol string
  | JFunction string
  | JArr "jsval list"
  | JObj "(string \<times> jsval) list"

text \<open>The result of the \<^verbatim>\<open>typeof\<close> operator.\<close>

fun typeof :: "jsval \<Rightarrow> string" where
  "typeof JUndefined = ''undefined''"
| "typeof JNull = ''object''"
| "typeof (JBool b) = ''boolean''"
| "typeof (JNum n) = ''number''"
| "typeof (JBigInt i) = ''bigint''"
| "typeof (JStr s) = ''string''"
| "typeof (JSymbol s) = ''symbol''"
| "typeof (JFunction f) = ''function''"
| "typeof (JArr xs) = ''object''"
| "typeof (JObj kvs) = ''object''"

text \<open>
  A record handled by the helpers is an object: a finite map from property names to
  values. A property that is absent is \<open>None\<close>; a property that is present with the value
  \<^verbatim>\<open>undefined\<close>, \<^verbatim>\<open>null\<close> or the empty string is \<open>Some JUndefined\<close>, \<open>Some JNull\<close> or
  \<open>Some (JStr [])\<close>.
\<close>

type_synonym obj = "string \<rightharpoonup> jsval"

section \<open>Role validation\<close>

text \<open>\<^verbatim>\<open>const VALID_ROLES = ["customer", "staff", "admin"] as const\<close>\<close>

definition VALID_ROLES :: "string list" where
  "VALID_ROLES = [''customer'', ''staff'', ''admin'']"

text \<open>\<^verbatim>\<open>Array.prototype.includes\<close> on an array of strings: strict equality with an element.\<close>

definition array_includes :: "string list \<Rightarrow> string \<Rightarrow> bool" where
  "array_includes xs s \<longleftrightarrow> s \<in> set xs"

record validation_result =
  isValid :: bool
  error :: "string option"

text \<open>
  \<^verbatim>\<open>validateRole(role: any)\<close>: the two checks of the source, in its order. The body
  sits in a \<^verbatim>\<open>try\<close> block, but none of its operations (\<^verbatim>\<open>typeof\<close>, \<^verbatim>\<open>includes\<close> on a
  constant array, interpolating a string into a template) throws, so the \<^verbatim>\<open>catch\<close>
  branch is never taken.
\<close>

definition validateRole :: "jsval \<Rightarrow> validation_result" where
  "validateRole role =
     (if typeof role \<noteq> ''string''
      then \<lparr>isValid = False, error = Some ''Role must be a string''\<rparr>
      else (case role of
              JStr s \<Rightarrow>
                (if \<not> array_includes VALID_ROLES s
                 then \<lparr>isValid = False, error = Some (''Invalid role: '' @ s)\<rparr>
                 else \<lparr>isValid = True, error = None\<rparr>)
            | _ \<Rightarrow> \<lparr>isValid = False, error = Some ''Role must be a string''\<rparr>))"

section \<open>The runtime: wall clock and random numbers\<close>

text \<open>
  \<^verbatim>\<open>Date.now()\<close> and \<^verbatim>\<open>Math.random()\<close> read the environment. The runtime holds the
  readings that the coming calls will return, the next one at index 0; a call returns it
  and moves on. The rendering of a number in radix 36 (\<^verbatim>\<open>Number.prototype.toString(36)\<close>)
  is left to the engine by the language, so it is a component of the runtime as well.
\<close>

record runtime =
  now_samples :: "nat \<Rightarrow> int"
  random_samples :: "nat \<Rightarrow> real"
  radix36 :: "real \<Rightarrow> string"

definition Date_now :: "runtime \<Rightarrow> int \<times> runtime" where
  "Date_now w = (now_samples w 0, w\<lparr>now_samples := now_samples w \<circ> Suc\<rparr>)"

definition Math_random :: "runtime \<Rightarrow> real \<times> runtime" where
  "Math_random w = (random_samples w 0, w\<lparr>random_samples := random_samples w \<circ> Suc\<rparr>)"

text \<open>\<^verbatim>\<open>String.prototype.substr(start, length)\<close> for a start and a length that are not negative.\<close>

definition substr :: "string \<Rightarrow> nat \<Rightarrow> nat \<Rightarrow> string" where
  "substr s start len = take len (drop start s)"

section \<open>Record creation\<close>

text \<open>
  \<^verbatim>\<open>createUserRecord(data)\<close> returns the object literal
  \<^verbatim>\<open>{ ...data, _creationTime: Date.now(), _id: `user_${Math.random().toString(36).substr(2, 9)}` }\<close>:
  the own properties of \<open>data\<close>, then the two system properties, a later property
  replacing an earlier one of the same name. The clock is read before the random number.
\<close>

definition createUserRecord :: "obj \<Rightarrow> runtime \<Rightarrow> obj \<times> runtime" where
  "createUserRecord data w =
     (let (t, w1) = Date_now w;
          (r, w2) = Math_random w1
      in (data(''_creationTime'' \<mapsto> JNum (of_int t),
               ''_id'' \<mapsto> JStr (''user_'' @ substr (radix36 w2 r) 2 9)),
          w2))"

definition createBranchRecord :: "obj \<Rightarrow> runtime \<Rightarrow> obj \<times> runtime" where
  "createBranchRecord data w =
     (let (t, w1) = Date_now w;
          (r, w2) = Math_random w1
      in (data(''_creationTime'' \<mapsto> JNum (of_int t),
               ''_id'' \<mapsto> JStr (''branch_'' @ substr (radix36 w2 r) 2 9)),
          w2))"

text \<open>
  The declared parameter types of the two helpers:
  \<^verbatim>\<open>{ clerkId: string; email: string; role: string; name?: string; phoneNumber?: string }\<close> and
  \<^verbatim>\<open>{ name: string; address: string; city: string; state: string; zipCode: string;
     phoneNumber: string; email?: string; isActive: boolean }\<close>.
  An optional property is absent, or present with a string or with \<^verbatim>\<open>undefined\<close>.
\<close>

definition required_string :: "jsval option \<Rightarrow> bool" where
  "required_string p = (case p of Some (JStr s) \<Rightarrow> True | _ \<Rightarrow> False)"

definition required_boolean :: "jsval option \<Rightarrow> bool" where
  "required_boolean p = (case p of Some (JBool b) \<Rightarrow> True | _ \<Rightarrow> False)"

definition optional_string :: "jsval option \<Rightarrow> bool" where
  "optional_string p =
     (case p of None \<Rightarrow> True | Some JUndefined \<Rightarrow> True | Some (JStr s) \<Rightarrow> True | _ \<Rightarrow> False)"

definition user_data :: "obj \<Rightarrow> bool" where
  "user_data d \<longleftrightarrow>
     dom d \<subseteq> {''clerkId'', ''email'', ''role'', ''name'', ''phoneNumber''}
     \<and> required_string (d ''clerkId'') \<and> required_string (d ''email'')
     \<and> required_string (d ''role'')
     \<and> optional_string (d ''name'') \<and> optional_string (d ''phoneNumber'')"

definition branch_data :: "obj \<Rightarrow> bool" where
  "branch_data d \<longleftrightarrow>
     dom d \<subseteq> {''name'', ''address'', ''city'', ''state'', ''zipCode'', ''phoneNumber'',
               ''email'', ''isActive''}
     \<and> required_string (d ''name'') \<and> required_string (d ''address'')
     \<and> required_string (d ''city'') \<and> required_string (d ''state'')
     \<and> required_string (d ''zipCode'') \<and> required_string (d ''phoneNumber'')
     \<and> optional_string (d ''email'') \<and> required_boolean (d ''isActive'')"

text \<open>
  The property tests bracket a creation with two readings of the clock:
  \<^verbatim>\<open>const timeBefore = Date.now(); const user = createUserRecord({...}); const timeAfter = Date.now();\<close>
\<close>

definition bracketed ::
  "(obj \<Rightarrow> runtime \<Rightarrow> obj \<times> runtime) \<Rightarrow> obj \<Rightarrow> runtime \<Rightarrow> int \<times> obj \<times> int" where
  "bracketed create data w =
     (let (timeBefore, w1) = Date_now w;
          (rec, w2) = create data w1;
          (timeAfter, w3) = Date_now w2
      in (timeBefore, rec, timeAfter))"

section \<open>Attempted modification of the creation time\<close>

record modification_result =
  success :: bool

text \<open>
  \<^verbatim>\<open>tryModifyCreationTime(record, newTime)\<close> receives the record by reference. Both
  branches return \<^verbatim>\<open>{ success: false }\<close> and no statement assigns to the record; the
  model returns the result together with the record as it is after the call.
\<close>

definition tryModifyCreationTime :: "obj \<Rightarrow> real \<Rightarrow> modification_result \<times> obj" where
  "tryModifyCreationTime record newTime = (\<lparr>success = False\<rparr>, record)"

section \<open>The schema\<close>

text \<open>
  The validators that the schema builds with \<^verbatim>\<open>v.string()\<close>, \<^verbatim>\<open>v.number()\<close>,
  \<^verbatim>\<open>v.boolean()\<close>, \<^verbatim>\<open>v.id(table)\<close>, \<^verbatim>\<open>v.literal(s)\<close>, \<^verbatim>\<open>v.union(...)\<close>,
  \<^verbatim>\<open>v.optional(...)\<close>, \<^verbatim>\<open>v.array(...)\<close> and \<^verbatim>\<open>v.object({...})\<close>, as terms.
\<close>

datatype validator =
    v_string
  | v_number
  | v_boolean
  | v_id string
  | v_literal string
  | v_union "validator list"
  | v_optional validator
  | v_array validator
  | v_object "(string \<times> validator) list"

text \<open>
  A table definition: the declared fields in the order of the source, and the indexes in
  the order of the \<^verbatim>\<open>.index(name, fields)\<close> calls. An index is a name and a tuple of
  field names; the declaration carries nothing else.
\<close>

record table_definition =
  documentType :: "(string \<times> validator) list"
  indexes :: "(string \<times> string list) list"

definition defineTable :: "(string \<times> validator) list \<Rightarrow> table_definition" where
  "defineTable flds = \<lparr>documentType = flds, indexes = []\<rparr>"

definition index :: "string \<Rightarrow> string list \<Rightarrow> table_definition \<Rightarrow> table_definition" where
  "index name flds t = t\<lparr>indexes := indexes t @ [(name, flds)]\<rparr>"

definition users :: table_definition where
  "users =
     index ''by_email'' [''email'']
       (index ''by_clerkId'' [''clerkId'']
         (defineTable
            [(''clerkId'', v_string),
             (''email'', v_string),
             (''name'', v_optional v_string),
             (''role'', v_union [v_literal ''customer'', v_literal ''staff'', v_literal ''admin'']),
             (''phoneNumber'', v_optional v_string)]))"

definition branches :: table_definition where
  "branches =
     index ''by_isActive'' [''isActive'']
       (defineTable
          [(''name'', v_string),
           (''address'', v_string),
           (''city'', v_string),
           (''state'', v_string),
           (''zipCode'', v_string),
           (''phoneNumber'', v_string),
           (''email'', v_optional v_string),
           (''isActive'', v_boolean)])"

definition categories :: table_definition where
  "categories =
     index ''by_displayOrder'' [''displayOrder'']
       (index ''by_isActive'' [''isActive'']
         (defineTable
            [(''name'', v_string),
             (''description'', v_optional v_string),
             (''displayOrder'', v_optional v_number),
             (''isActive'', v_boolean)]))"

definition menuItems :: table_definition where
  "menuItems =
     index ''by_isAvailable_categoryId'' [''isAvailable'', ''categoryId'']
       (index ''by_branchId'' [''branchId'']
         (index ''by_categoryId'' [''categoryId'']
           (defineTable
              [(''categoryId'', v_id ''categories''),
               (''branchId'', v_optional (v_id ''branches'')),
               (''name'', v_string),
               (''description'', v_optional v_string),
               (''price'', v_number),
               (''imageUrl'', v_optional v_string),
               (''isAvailable'', v_boolean),
               (''preparationTime'', v_optional v_number)])))"

definition tables :: table_definition where
  "tables =
     index ''by_branchId_tableNumber'' [''branchId'', ''tableNumber'']
       (index ''by_branchId_status'' [''branchId'', ''status'']
         (index ''by_branchId'' [''branchId'']
           (defineTable
              [(''branchId'', v_id ''branches''),
               (''tableNumber'', v_string),
               (''capacity'', v_number),
               (''status'', v_union [v_literal ''available'', v_literal ''occupied'',
                                     v_literal ''reserved''])])))"

definition orders :: table_definition where
  "orders =
     index ''by_branchId_status'' [''branchId'', ''status'']
       (index ''by_status'' [''status'']
         (index ''by_branchId'' [''branchId'']
           (index ''by_userId'' [''userId'']
             (index ''by_orderNumber'' [''orderNumber'']
               (defineTable
                  [(''userId'', v_id ''users''),
                   (''branchId'', v_id ''branches''),
                   (''tableId'', v_optional (v_id ''tables'')),
                   (''orderNumber'', v_string),
                   (''orderType'', v_union [v_literal ''dine-in'', v_literal ''takeout'',
                                            v_literal ''delivery'']),
                   (''status'', v_union [v_literal ''pending'', v_literal ''confirmed'',
                                         v_literal ''preparing'', v_literal ''ready'',
                                         v_literal ''completed'', v_literal ''cancelled'']),
                   (''totalAmount'', v_number),
                   (''notes'', v_optional v_string)])))))"

definition orderItems :: table_definition where
  "orderItems =
     index ''by_menuItemId'' [''menuItemId'']
       (index ''by_orderId'' [''orderId'']
         (defineTable
            [(''orderId'', v_id ''orders''),
             (''menuItemId'', v_id ''menuItems''),
             (''quantity'', v_number),
             (''priceAtOrder'', v_number),
             (''subtotal'', v_number),
             (''specialInstructions'', v_optional v_string)]))"

definition payments :: table_definition where
  "payments =
     index ''by_status'' [''status'']
       (index ''by_stripePaymentIntentId'' [''stripePaymentIntentId'']
         (index ''by_orderId'' [''orderId'']
           (defineTable
              [(''orderId'', v_id ''orders''),
               (''stripePaymentIntentId'', v_optional v_string),
               (''amount'', v_number),
               (''status'', v_union [v_literal ''pending'', v_literal ''succeeded'',
                                     v_literal ''failed'', v_literal ''refunded'']),
               (''paymentMethod'', v_union [v_literal ''card'', v_literal ''cash'',
                                            v_literal ''other'']),
               (''transactionDate'', v_optional v_number)])))"

definition analytics :: table_definition where
  "analytics =
     index ''by_periodStart_periodEnd'' [''periodStart'', ''periodEnd'']
       (index ''by_branchId_periodStart'' [''branchId'', ''periodStart'']
         (index ''by_branchId'' [''branchId'']
           (defineTable
              [(''branchId'', v_optional (v_id ''branches'')),
               (''periodStart'', v_number),
               (''periodEnd'', v_number),
               (''totalRevenue'', v_number),
               (''orderCount'', v_number),
               (''customerCount'', v_number),
               (''averageOrderValue'', v_number),
               (''topMenuItems'',
                  v_optional (v_array (v_object
                    [(''menuItemId'', v_id ''menuItems''),
                     (''name'', v_string),
                     (''orderCount'', v_number),
                     (''revenue'', v_number)])))])))"

definition defineSchema ::
  "(string \<times> table_definition) list \<Rightarrow> (string \<times> table_definition) list" where
  "defineSchema tbls = tbls"

definition schema :: "(string \<times> table_definition) list" where
  "schema = defineSchema
     [(''users'', users), (''branches'', branches), (''categories'', categories),
      (''menuItems'', menuItems), (''tables'', tables), (''orders'', orders),
      (''orderItems'', orderItems), (''payments'', payments), (''analytics'', analytics)]"

subsection \<open>Reading a schema\<close>

definition field_names :: "table_definition \<Rightarrow> string list" where
  "field_names t = map fst (documentType t)"

definition field :: "table_definition \<Rightarrow> string \<Rightarrow> validator option" where
  "field t k = map_of (documentType t) k"

fun is_optional :: "validator \<Rightarrow> bool" where
  "is_optional (v_optional vd) = True"
| "is_optional vd = False"

definition optional_fields :: "table_definition \<Rightarrow> string list" where
  "optional_fields t = map fst (filter (\<lambda>(k, vd). is_optional vd) (documentType t))"

text \<open>The literals of an enumerated field: a union whose members are all literals.\<close>

fun literals :: "validator list \<Rightarrow> string list option" where
  "literals [] = Some []"
| "literals (v_literal l # vds) = map_option (Cons l) (literals vds)"
| "literals (vd # vds) = None"

fun enum_values :: "validator \<Rightarrow> string list option" where
  "enum_values (v_union vds) = literals vds"
| "enum_values vd = None"

text \<open>Every declared index of a schema, as the pair of its collection and its key tuple.\<close>

definition declared_indexes ::
  "(string \<times> table_definition) list \<Rightarrow> (string \<times> string list) list" where
  "declared_indexes sch =
     concat (map (\<lambda>(collection, t). map (\<lambda>(name, flds). (collection, flds)) (indexes t)) sch)"

text \<open>
  The catalogue of indexes as the specification lists it (section 6), collection and key
  tuple, in the order of the text.
\<close>

definition index_catalogue :: "(string \<times> string list) list" where
  "index_catalogue =
     [(''users'', [''clerkId'']), (''users'', [''email'']),
      (''branches'', [''isActive'']),
      (''categories'', [''isActive'']), (''categories'', [''displayOrder'']),
      (''menuItems'', [''categoryId'']), (''menuItems'', [''branchId'']),
      (''menuItems'', [''isAvailable'', ''categoryId'']),
      (''tables'', [''branchId'']), (''tables'', [''branchId'', ''status'']),
      (''tables'', [''branchId'', ''tableNumber'']),
      (''orders'', [''orderNumber'']), (''orders'', [''userId'']), (''orders'', [''branchId'']),
      (''orders'', [''status'']), (''orders'', [''branchId'', ''status'']),
      (''orderItems'', [''orderId'']), (''orderItems'', [''menuItemId'']),
      (''payments'', [''orderId'']), (''payments'', [''stripePaymentIntentId'']),
      (''payments'', [''status'']),
      (''analytics'', [''branchId'']), (''analytics'', [''branchId'', ''periodStart'']),
      (''analytics'', [''periodStart'', ''periodEnd''])]"

subsection \<open>Conformance of a value to a validator\<close>

text \<open>
  Modelled from the spec: the code of the validators (\<^verbatim>\<open>convex/values\<close>) is imported by
  the schema and is not among the source files. Following sections 3, 4.1, 4.2 and 7 of
  the specification: a string, number or boolean field holds a value of that type; a
  reference holds an identifier, which is a string, and its target is not checked; an
  enumerated field holds exactly one of its literals, compared as strings; an array holds
  conforming elements and an object conforming fields; an optional field may be absent,
  and absence is not a value.
\<close>

fun validates :: "validator \<Rightarrow> jsval \<Rightarrow> bool" where
  "validates v_string x = (case x of JStr s \<Rightarrow> True | _ \<Rightarrow> False)"
| "validates v_number x = (case x of JNum n \<Rightarrow> True | _ \<Rightarrow> False)"
| "validates v_boolean x = (case x of JBool b \<Rightarrow> True | _ \<Rightarrow> False)"
| "validates (v_id t) x = (case x of JStr s \<Rightarrow> True | _ \<Rightarrow> False)"
| "validates (v_literal l) x = (x = JStr l)"
| "validates (v_union vds) x = list_ex (\<lambda>vd. validates vd x) vds"
| "validates (v_optional vd) x = validates vd x"
| "validates (v_array vd) x = (case x of JArr xs \<Rightarrow> list_all (validates vd) xs | _ \<Rightarrow> False)"
| "validates (v_object flds) x =
     (case x of
        JObj kvs \<Rightarrow>
          list_all (\<lambda>(k, vd). case map_of kvs k of
                                  None \<Rightarrow> is_optional vd
                                | Some y \<Rightarrow> validates vd y) flds
      | _ \<Rightarrow> False)"

text \<open>
  Modelled from the spec: the check of a record against a table (\<^verbatim>\<open>convex/server\<close>) is
  not among the source files. A record conforms to a table when each declared field holds
  a conforming value, or is optional and absent.
\<close>

definition conforms :: "table_definition \<Rightarrow> obj \<Rightarrow> bool" where
  "conforms t doc =
     list_all (\<lambda>(k, vd). case doc k of
                             None \<Rightarrow> is_optional vd
                           | Some y \<Rightarrow> validates vd y) (documentType t)"

text \<open>
  Modelled from the spec: the indexes are maintained by \<^verbatim>\<open>convex/server\<close>, which is not
  among the source files. The key of a record under an index is the tuple of its values
  for the index fields, in the declared order (section 4.1).
\<close>

definition index_key :: "string list \<Rightarrow> obj \<Rightarrow> jsval option list" where
  "index_key flds doc = map doc flds"

section \<open>Sample inputs\<close>

text \<open>
  An exact radix-36 rendering of a number in the interval from 0 to 1: \<^verbatim>\<open>"0"\<close> for zero,
  else \<^verbatim>\<open>"0."\<close> and the digits of the fraction, at most 52 of them.
\<close>

definition digit36 :: "nat \<Rightarrow> char" where
  "digit36 d = ''0123456789abcdefghijklmnopqrstuvwxyz'' ! d"

fun digits36 :: "nat \<Rightarrow> real \<Rightarrow> string" where
  "digits36 0 x = []"
| "digits36 (Suc n) x =
     (if x = 0 then []
      else digit36 (nat \<lfloor>x * 36\<rfloor>) # digits36 n (x * 36 - of_int \<lfloor>x * 36\<rfloor>))"

definition exact_radix36 :: "real \<Rightarrow> string" where
  "exact_radix36 x = (if x = 0 then ''0'' else ''0.'' @ digits36 52 x)"

text \<open>A clock that advances by one millisecond from reading to reading.\<close>

definition ticking_clock :: "nat \<Rightarrow> int" where
  "ticking_clock i = 1700000000000 + int i"

text \<open>
  Random draws that differ from call to call, all within \<open>2 / 2 ^ 50\<close> above one half.
\<close>

definition close_draws :: "nat \<Rightarrow> real" where
  "close_draws i = 1 / 2 + 1 / 2 ^ 50 + (if i = 0 then 0 else 1 / 2 ^ 52)"

definition sample_runtime :: runtime where
  "sample_runtime =
     \<lparr>now_samples = ticking_clock, random_samples = close_draws, radix36 = exact_radix36\<rparr>"

definition sample_user :: obj where
  "sample_user = [''clerkId'' \<mapsto> JStr ''u1'', ''email'' \<mapsto> JStr ''a@b.com'',
                  ''role'' \<mapsto> JStr ''customer'']"

definition sample_branch :: obj where
  "sample_branch = [''name'' \<mapsto> JStr ''Main'', ''address'' \<mapsto> JStr ''1 High St'',
                    ''city'' \<mapsto> JStr ''Austin'', ''state'' \<mapsto> JStr ''TX'',
                    ''zipCode'' \<mapsto> JStr ''78701'', ''phoneNumber'' \<mapsto> JStr ''555-0100'',
                    ''isActive'' \<mapsto> JBool True]"

definition second_user :: obj where
  "second_user = [''clerkId'' \<mapsto> JStr ''u2'', ''email'' \<mapsto> JStr ''c@d.com'',
                  ''role'' \<mapsto> JStr ''staff'']"

definition table_one :: obj where
  "table_one = [''branchId'' \<mapsto> JStr ''branch_i00000000'', ''tableNumber'' \<mapsto> JStr ''1'',
                ''capacity'' \<mapsto> JNum 4, ''status'' \<mapsto> JStr ''available'']"

definition table_zero_one :: obj where
  "table_zero_one = table_one(''tableNumber'' \<mapsto> JStr ''01'')"

definition table_numeric :: obj where
  "table_numeric = table_one(''tableNumber'' \<mapsto> JNum 1)"

section \<open>Enum closure of the role validator\<close>

lemma typeof_string_iff: "typeof v = ''string'' \<longleftrightarrow> (\<exists>s. v = JStr s)"
  by (cases v) simp_all

lemma includes_VALID_ROLES:
  "array_includes VALID_ROLES s \<longleftrightarrow> s = ''customer'' \<or> s = ''staff'' \<or> s = ''admin''"
  by (auto simp: array_includes_def VALID_ROLES_def)

text \<open>
  Claim C1. For every candidate value \<open>v\<close>, \<open>validateRole v\<close> reports
  \<open>isValid = True\<close> exactly when \<open>v\<close> is a string equal to one of the literals
  \<^verbatim>\<open>"customer"\<close>, \<^verbatim>\<open>"staff"\<close>, \<^verbatim>\<open>"admin"\<close>. The case variant \<^verbatim>\<open>"Customer"\<close> and the
  values of every other kind (number, boolean, null, undefined, object, array) are
  rejected.
\<close>

theorem validateRole_enum_closure:
  "(isValid (validateRole v) \<longleftrightarrow>
      v = JStr ''customer'' \<or> v = JStr ''staff'' \<or> v = JStr ''admin'')
   \<and> isValid (validateRole (JStr ''Customer'')) = False
   \<and> isValid (validateRole (JNum n)) = False
   \<and> isValid (validateRole (JBool b)) = False
   \<and> isValid (validateRole JNull) = False
   \<and> isValid (validateRole JUndefined) = False
   \<and> isValid (validateRole (JObj kvs)) = False
   \<and> isValid (validateRole (JArr xs)) = False"
proof -
  have main: "isValid (validateRole v) \<longleftrightarrow>
      v = JStr ''customer'' \<or> v = JStr ''staff'' \<or> v = JStr ''admin''"
  proof (cases "typeof v = ''string''")
    case True
    then obtain s where "v = JStr s"
      using typeof_string_iff by blast
    then show ?thesis
      by (simp add: validateRole_def includes_VALID_ROLES)
  next
    case False
    then have "\<not> isValid (validateRole v)"
      by (simp add: validateRole_def)
    moreover have "v \<noteq> JStr ''customer''" "v \<noteq> JStr ''staff''" "v \<noteq> JStr ''admin''"
      using False by auto
    ultimately show ?thesis by simp
  qed
  have variant: "isValid (validateRole (JStr ''Customer'')) = False"
    by (simp add: validateRole_def includes_VALID_ROLES)
  have others: "isValid (validateRole (JNum n)) = False"
    "isValid (validateRole (JBool b)) = False"
    "isValid (validateRole JNull) = False"
    "isValid (validateRole JUndefined) = False"
    "isValid (validateRole (JObj kvs)) = False"
    "isValid (validateRole (JArr xs)) = False"
    by (simp_all add: validateRole_def)
  from main variant others show ?thesis by simp
qed

section \<open>Creation time\<close>

lemma createUserRecord_fst:
  "fst (createUserRecord d w) =
     d(''_creationTime'' \<mapsto> JNum (of_int (now_samples w 0)),
       ''_id'' \<mapsto> JStr (''user_'' @ substr (radix36 w (random_samples w 0)) 2 9))"
  by (simp add: createUserRecord_def Date_now_def Math_random_def)

lemma createUserRecord_snd:
  "snd (createUserRecord d w) =
     w\<lparr>now_samples := now_samples w \<circ> Suc, random_samples := random_samples w \<circ> Suc\<rparr>"
  by (simp add: createUserRecord_def Date_now_def Math_random_def)

lemma createBranchRecord_fst:
  "fst (createBranchRecord d w) =
     d(''_creationTime'' \<mapsto> JNum (of_int (now_samples w 0)),
       ''_id'' \<mapsto> JStr (''branch_'' @ substr (radix36 w (random_samples w 0)) 2 9))"
  by (simp add: createBranchRecord_def Date_now_def Math_random_def)

lemma createBranchRecord_snd:
  "snd (createBranchRecord d w) =
     w\<lparr>now_samples := now_samples w \<circ> Suc, random_samples := random_samples w \<circ> Suc\<rparr>"
  by (simp add: createBranchRecord_def Date_now_def Math_random_def)

lemma bracketed_createUserRecord:
  "bracketed createUserRecord d w =
     (now_samples w 0,
      fst (createUserRecord d (snd (Date_now w))),
      now_samples w (Suc (Suc 0)))"
  by (simp add: bracketed_def createUserRecord_def Date_now_def Math_random_def)

lemma bracketed_createBranchRecord:
  "bracketed createBranchRecord d w =
     (now_samples w 0,
      fst (createBranchRecord d (snd (Date_now w))),
      now_samples w (Suc (Suc 0)))"
  by (simp add: bracketed_def createBranchRecord_def Date_now_def Math_random_def)

lemma ticking_clock_steps: "ticking_clock i \<le> ticking_clock (Suc i)"
  by (simp add: ticking_clock_def)

text \<open>
  Claim C2. A wall clock does not run backwards: each reading is at least the one
  before. For every creation (\<open>createUserRecord\<close>, \<open>createBranchRecord\<close>) bracketed
  by a reading \<open>t0\<close> of the clock before the call and a reading \<open>t1\<close> after it, the
  \<^verbatim>\<open>_creationTime\<close> of the created record is a number \<open>t\<close> with \<open>t0 \<le> t \<le> t1\<close>.
\<close>

theorem creationTime_within_bracket:
  assumes clock: "\<forall>i. now_samples w i \<le> now_samples w (Suc i)"
    and user: "bracketed createUserRecord d w = (t0, u, t1)"
    and branch: "bracketed createBranchRecord b w = (s0, br, s1)"
  shows "(\<exists>t. u ''_creationTime'' = Some (JNum t) \<and> of_int t0 \<le> t \<and> t \<le> of_int t1)
       \<and> (\<exists>t. br ''_creationTime'' = Some (JNum t) \<and> of_int s0 \<le> t \<and> t \<le> of_int s1)"
proof -
  have step01: "now_samples w 0 \<le> now_samples w (Suc 0)"
    and step12: "now_samples w (Suc 0) \<le> now_samples w (Suc (Suc 0))"
    using clock by blast+
  have u: "u ''_creationTime'' = Some (JNum (of_int (now_samples w (Suc 0))))"
    and t0: "t0 = now_samples w 0" and t1: "t1 = now_samples w (Suc (Suc 0))"
    using user by (auto simp: bracketed_createUserRecord createUserRecord_fst Date_now_def)
  have br: "br ''_creationTime'' = Some (JNum (of_int (now_samples w (Suc 0))))"
    and s0: "s0 = now_samples w 0" and s1: "s1 = now_samples w (Suc (Suc 0))"
    using branch by (auto simp: bracketed_createBranchRecord createBranchRecord_fst Date_now_def)
  from u t0 t1 step01 step12
  have "\<exists>t. u ''_creationTime'' = Some (JNum t) \<and> of_int t0 \<le> t \<and> t \<le> of_int t1"
    by simp
  moreover from br s0 s1 step01 step12
  have "\<exists>t. br ''_creationTime'' = Some (JNum t) \<and> of_int s0 \<le> t \<and> t \<le> of_int s1"
    by simp
  ultimately show ?thesis by simp
qed

text \<open>
  The bracket at the sample runtime: the readings are 1700000000000, 1700000000001 and
  1700000000002.
\<close>

theorem creationTime_within_bracket_witness:
  "(\<forall>i. now_samples sample_runtime i \<le> now_samples sample_runtime (Suc i))
   \<and> bracketed createUserRecord sample_user sample_runtime =
       (1700000000000, fst (createUserRecord sample_user (snd (Date_now sample_runtime))),
        1700000000002)
   \<and> bracketed createBranchRecord sample_branch sample_runtime =
       (1700000000000, fst (createBranchRecord sample_branch (snd (Date_now sample_runtime))),
        1700000000002)
   \<and> (\<exists>t. fst (createUserRecord sample_user (snd (Date_now sample_runtime))) ''_creationTime''
            = Some (JNum t) \<and> 1700000000000 \<le> t \<and> t \<le> 1700000000002)
   \<and> (\<exists>t. fst (createBranchRecord sample_branch (snd (Date_now sample_runtime))) ''_creationTime''
            = Some (JNum t) \<and> 1700000000000 \<le> t \<and> t \<le> 1700000000002)"
proof -
  have clock: "\<forall>i. now_samples sample_runtime i \<le> now_samples sample_runtime (Suc i)"
    by (simp add: sample_runtime_def ticking_clock_steps)
  have user: "bracketed createUserRecord sample_user sample_runtime =
       (1700000000000, fst (createUserRecord sample_user (snd (Date_now sample_runtime))),
        1700000000002)"
    by (simp add: bracketed_createUserRecord sample_runtime_def ticking_clock_def)
  have branch: "bracketed createBranchRecord sample_branch sample_runtime =
       (1700000000000, fst (createBranchRecord sample_branch (snd (Date_now sample_runtime))),
        1700000000002)"
    by (simp add: bracketed_createBranchRecord sample_runtime_def ticking_clock_def)
  from creationTime_within_bracket [OF clock user branch] clock user branch
  show ?thesis by simp
qed

text \<open>
  Claim C3. For every record \<open>r\<close>, in particular every record just created, and every
  new time, \<open>tryModifyCreationTime\<close> reports \<open>success = False\<close> and leaves the record,
  hence its \<^verbatim>\<open>_creationTime\<close>, as it was.
\<close>

theorem creationTime_immutable:
  "success (fst (tryModifyCreationTime r newTime)) = False
   \<and> snd (tryModifyCreationTime r newTime) = r
   \<and> snd (tryModifyCreationTime (fst (createUserRecord d w)) newTime) ''_creationTime''
       = Some (JNum (of_int (now_samples w 0)))
   \<and> snd (tryModifyCreationTime (fst (createBranchRecord b w)) newTime) ''_creationTime''
       = Some (JNum (of_int (now_samples w 0)))"
  by (simp add: tryModifyCreationTime_def createUserRecord_fst createBranchRecord_fst)

text \<open>
  Claim C7. A record created from data that omits an optional field (\<^verbatim>\<open>name\<close> or
  \<^verbatim>\<open>phoneNumber\<close> of a user, \<^verbatim>\<open>email\<close> of a branch) reads back with that field absent:
  not present with \<^verbatim>\<open>null\<close> and not present with the empty string.
\<close>

theorem omitted_optional_field_absent:
  "(d ''name'' = None \<longrightarrow>
      fst (createUserRecord d w) ''name'' = None
      \<and> fst (createUserRecord d w) ''name'' \<noteq> Some JNull
      \<and> fst (createUserRecord d w) ''name'' \<noteq> Some (JStr []))
   \<and> (d ''phoneNumber'' = None \<longrightarrow>
      fst (createUserRecord d w) ''phoneNumber'' = None
      \<and> fst (createUserRecord d w) ''phoneNumber'' \<noteq> Some JNull
      \<and> fst (createUserRecord d w) ''phoneNumber'' \<noteq> Some (JStr []))
   \<and> (b ''email'' = None \<longrightarrow>
      fst (createBranchRecord b w) ''email'' = None
      \<and> fst (createBranchRecord b w) ''email'' \<noteq> Some JNull
      \<and> fst (createBranchRecord b w) ''email'' \<noteq> Some (JStr []))"
  by (simp add: createUserRecord_fst createBranchRecord_fst)

text \<open>The sample user has no name and no phone number, the sample branch no email.\<close>

theorem omitted_optional_field_absent_witness:
  "sample_user ''name'' = None \<and> sample_user ''phoneNumber'' = None
   \<and> sample_branch ''email'' = None
   \<and> fst (createUserRecord sample_user sample_runtime) ''name'' = None
   \<and> fst (createUserRecord sample_user sample_runtime) ''phoneNumber'' = None
   \<and> fst (createBranchRecord sample_branch sample_runtime) ''email'' = None"
proof -
  have absent: "sample_user ''name'' = None" "sample_user ''phoneNumber'' = None"
    "sample_branch ''email'' = None"
    by (simp_all add: sample_user_def sample_branch_def)
  from omitted_optional_field_absent [of sample_user sample_runtime sample_branch] absent
  show ?thesis by simp
qed

section \<open>Identifiers\<close>

text \<open>
  Both draws of the sample runtime render as \<^verbatim>\<open>0.i00000000\<close> followed by further
  digits; the nine characters kept are the same.
\<close>

lemma sample_fragment_first:
  "substr (exact_radix36 (close_draws 0)) 2 9 = ''i00000000''"
  by (simp add: close_draws_def substr_def exact_radix36_def digit36_def numeral_eq_Suc)

lemma sample_fragment_second:
  "substr (exact_radix36 (close_draws (Suc 0))) 2 9 = ''i00000000''"
  by (simp add: close_draws_def substr_def exact_radix36_def digit36_def numeral_eq_Suc)

text \<open>
  Against claim C8 as stated: two successive creations whose random draws differ
  (\<open>1/2 + 1/2^50\<close> and \<open>1/2 + 1/2^50 + 1/2^52\<close>) receive the same \<^verbatim>\<open>_id\<close>, since both draws
  render as \<^verbatim>\<open>0.i00000000...\<close> and only nine characters are kept.
\<close>

theorem distinct_creations_share_id:
  "random_samples sample_runtime 0
     \<noteq> random_samples (snd (createUserRecord sample_user sample_runtime)) 0
   \<and> fst (createUserRecord sample_user sample_runtime) ''_id''
     = fst (createUserRecord second_user (snd (createUserRecord sample_user sample_runtime))) ''_id''
   \<and> fst (createBranchRecord sample_branch sample_runtime) ''_id''
     = fst (createBranchRecord sample_branch
              (snd (createBranchRecord sample_branch sample_runtime))) ''_id''"
proof -
  have draws: "random_samples sample_runtime 0
     \<noteq> random_samples (snd (createUserRecord sample_user sample_runtime)) 0"
    by (simp add: createUserRecord_snd sample_runtime_def close_draws_def)
  have users: "fst (createUserRecord sample_user sample_runtime) ''_id''
     = fst (createUserRecord second_user (snd (createUserRecord sample_user sample_runtime))) ''_id''"
    by (simp add: createUserRecord_fst createUserRecord_snd sample_runtime_def
        sample_fragment_first sample_fragment_second)
  have branches: "fst (createBranchRecord sample_branch sample_runtime) ''_id''
     = fst (createBranchRecord sample_branch
              (snd (createBranchRecord sample_branch sample_runtime))) ''_id''"
    by (simp add: createBranchRecord_fst createBranchRecord_snd sample_runtime_def
        sample_fragment_first sample_fragment_second)
  from draws users branches show ?thesis by simp
qed

text \<open>
  Claim C8, amended. The \<^verbatim>\<open>_id\<close> is assigned at creation as \<^verbatim>\<open>user_\<close> or \<^verbatim>\<open>branch_\<close>
  followed by the fragment of at most nine characters that starts at position 2 of the
  radix-36 rendering of one random draw. Two creations within a collection receive distinct
  identifiers exactly when the fragments of their draws differ.
\<close>

theorem ids_distinct_iff_fragments_differ:
  "(fst (createUserRecord d1 w1) ''_id'' \<noteq> fst (createUserRecord d2 w2) ''_id''
      \<longleftrightarrow> substr (radix36 w1 (random_samples w1 0)) 2 9
            \<noteq> substr (radix36 w2 (random_samples w2 0)) 2 9)
   \<and> (fst (createBranchRecord b1 w1) ''_id'' \<noteq> fst (createBranchRecord b2 w2) ''_id''
      \<longleftrightarrow> substr (radix36 w1 (random_samples w1 0)) 2 9
            \<noteq> substr (radix36 w2 (random_samples w2 0)) 2 9)
   \<and> fst (createUserRecord d1 w1) ''_id''
       = Some (JStr (''user_'' @ substr (radix36 w1 (random_samples w1 0)) 2 9))
   \<and> fst (createBranchRecord b1 w1) ''_id''
       = Some (JStr (''branch_'' @ substr (radix36 w1 (random_samples w1 0)) 2 9))"
  by (simp add: createUserRecord_fst createBranchRecord_fst)

section \<open>Frame of a creation\<close>

text \<open>
  The spread keeps every property of the input whose name is not that of one of the two
  system properties. The declared parameter types have no property named \<^verbatim>\<open>_creationTime\<close>
  or \<^verbatim>\<open>_id\<close>.
\<close>

lemma createUserRecord_other_fields:
  "k \<noteq> ''_creationTime'' \<Longrightarrow> k \<noteq> ''_id'' \<Longrightarrow> fst (createUserRecord d w) k = d k"
  by (simp add: createUserRecord_fst)

lemma createBranchRecord_other_fields:
  "k \<noteq> ''_creationTime'' \<Longrightarrow> k \<noteq> ''_id'' \<Longrightarrow> fst (createBranchRecord d w) k = d k"
  by (simp add: createBranchRecord_fst)

lemma user_data_no_system_fields:
  "user_data d \<Longrightarrow> d ''_creationTime'' = None \<and> d ''_id'' = None"
  unfolding user_data_def by (auto simp: domIff subset_iff)

lemma branch_data_no_system_fields:
  "branch_data d \<Longrightarrow> d ''_creationTime'' = None \<and> d ''_id'' = None"
  unfolding branch_data_def by (auto simp: domIff subset_iff)

text \<open>
  Claim C10. For every input of the declared parameter type, \<open>createUserRecord\<close> and
  \<open>createBranchRecord\<close> return every supplied field with the value it has in the input,
  and the fields of the output that the input does not have are exactly \<^verbatim>\<open>_creationTime\<close>
  and \<^verbatim>\<open>_id\<close>.
\<close>

theorem creation_preserves_input_fields:
  "(user_data d \<longrightarrow>
      (\<forall>k\<in>dom d. fst (createUserRecord d w) k = d k)
      \<and> dom (fst (createUserRecord d w)) - dom d = {''_creationTime'', ''_id''})
   \<and> (branch_data b \<longrightarrow>
      (\<forall>k\<in>dom b. fst (createBranchRecord b w) k = b k)
      \<and> dom (fst (createBranchRecord b w)) - dom b = {''_creationTime'', ''_id''})"
proof (intro conjI impI)
  assume d: "user_data d"
  from user_data_no_system_fields [OF d]
  show "\<forall>k\<in>dom d. fst (createUserRecord d w) k = d k"
    by (auto simp: createUserRecord_fst)
  from user_data_no_system_fields [OF d]
  show "dom (fst (createUserRecord d w)) - dom d = {''_creationTime'', ''_id''}"
    by (auto simp: createUserRecord_fst domIff)
next
  assume b: "branch_data b"
  from branch_data_no_system_fields [OF b]
  show "\<forall>k\<in>dom b. fst (createBranchRecord b w) k = b k"
    by (auto simp: createBranchRecord_fst)
  from branch_data_no_system_fields [OF b]
  show "dom (fst (createBranchRecord b w)) - dom b = {''_creationTime'', ''_id''}"
    by (auto simp: createBranchRecord_fst domIff)
qed

lemma sample_user_typed: "user_data sample_user"
  by (simp add: user_data_def sample_user_def required_string_def optional_string_def)

lemma sample_branch_typed: "branch_data sample_branch"
  by (simp add: branch_data_def sample_branch_def required_string_def optional_string_def
      required_boolean_def)

text \<open>The frame at the sample user and the sample branch.\<close>

theorem creation_preserves_input_fields_witness:
  "user_data sample_user \<and> branch_data sample_branch
   \<and> fst (createUserRecord sample_user sample_runtime) ''clerkId'' = Some (JStr ''u1'')
   \<and> fst (createUserRecord sample_user sample_runtime) ''email'' = Some (JStr ''a@b.com'')
   \<and> fst (createUserRecord sample_user sample_runtime) ''role'' = Some (JStr ''customer'')
   \<and> fst (createBranchRecord sample_branch sample_runtime) ''isActive'' = Some (JBool True)
   \<and> dom (fst (createUserRecord sample_user sample_runtime)) - dom sample_user
       = {''_creationTime'', ''_id''}
   \<and> dom (fst (createBranchRecord sample_branch sample_runtime)) - dom sample_branch
       = {''_creationTime'', ''_id''}"
proof -
  note frame = creation_preserves_input_fields [of sample_user sample_runtime sample_branch]
  have user_frame: "(\<forall>k\<in>dom sample_user.
         fst (createUserRecord sample_user sample_runtime) k = sample_user k)
      \<and> dom (fst (createUserRecord sample_user sample_runtime)) - dom sample_user
          = {''_creationTime'', ''_id''}"
    by (rule mp [OF conjunct1 [OF frame] sample_user_typed])
  have branch_frame: "(\<forall>k\<in>dom sample_branch.
         fst (createBranchRecord sample_branch sample_runtime) k = sample_branch k)
      \<and> dom (fst (createBranchRecord sample_branch sample_runtime)) - dom sample_branch
          = {''_creationTime'', ''_id''}"
    by (rule mp [OF conjunct2 [OF frame] sample_branch_typed])
  note user = conjunct1 [OF user_frame] and branch = conjunct1 [OF branch_frame]
  have clerkId: "fst (createUserRecord sample_user sample_runtime) ''clerkId'' = Some (JStr ''u1'')"
    using bspec [OF user, of "''clerkId''"] by (simp add: sample_user_def)
  have email: "fst (createUserRecord sample_user sample_runtime) ''email'' = Some (JStr ''a@b.com'')"
    using bspec [OF user, of "''email''"] by (simp add: sample_user_def)
  have role: "fst (createUserRecord sample_user sample_runtime) ''role'' = Some (JStr ''customer'')"
    using bspec [OF user, of "''role''"] by (simp add: sample_user_def)
  have isActive: "fst (createBranchRecord sample_branch sample_runtime) ''isActive'' = Some (JBool True)"
    using bspec [OF branch, of "''isActive''"] by (simp add: sample_branch_def)
  show ?thesis
    by (intro conjI sample_user_typed sample_branch_typed clerkId email role isActive
        conjunct2 [OF user_frame] conjunct2 [OF branch_frame])
qed

section \<open>Properties of the schema\<close>

lemma indexes_index: "indexes (index name flds t) = indexes t @ [(name, flds)]"
  by (simp add: index_def)

lemma documentType_index: "documentType (index name flds t) = documentType t"
  by (simp add: index_def)

lemma indexes_defineTable: "indexes (defineTable flds) = []"
  by (simp add: defineTable_def)

lemma documentType_defineTable: "documentType (defineTable flds) = flds"
  by (simp add: defineTable_def)

lemmas builder_simps = indexes_index documentType_index indexes_defineTable
  documentType_defineTable

lemma users_indexes:
  "indexes users = [(''by_clerkId'', [''clerkId'']), (''by_email'', [''email''])]"
  by (simp add: users_def builder_simps)

lemma branches_indexes: "indexes branches = [(''by_isActive'', [''isActive''])]"
  by (simp add: branches_def builder_simps)

lemma categories_indexes:
  "indexes categories =
     [(''by_isActive'', [''isActive'']), (''by_displayOrder'', [''displayOrder''])]"
  by (simp add: categories_def builder_simps)

lemma menuItems_indexes:
  "indexes menuItems =
     [(''by_categoryId'', [''categoryId'']), (''by_branchId'', [''branchId'']),
      (''by_isAvailable_categoryId'', [''isAvailable'', ''categoryId''])]"
  by (simp add: menuItems_def builder_simps)

lemma tables_indexes:
  "indexes tables =
     [(''by_branchId'', [''branchId'']), (''by_branchId_status'', [''branchId'', ''status'']),
      (''by_branchId_tableNumber'', [''branchId'', ''tableNumber''])]"
  by (simp add: tables_def builder_simps)

lemma orders_indexes:
  "indexes orders =
     [(''by_orderNumber'', [''orderNumber'']), (''by_userId'', [''userId'']),
      (''by_branchId'', [''branchId'']), (''by_status'', [''status'']),
      (''by_branchId_status'', [''branchId'', ''status''])]"
  by (simp add: orders_def builder_simps)

lemma orderItems_indexes:
  "indexes orderItems =
     [(''by_orderId'', [''orderId'']), (''by_menuItemId'', [''menuItemId''])]"
  by (simp add: orderItems_def builder_simps)

lemma payments_indexes:
  "indexes payments =
     [(''by_orderId'', [''orderId'']),
      (''by_stripePaymentIntentId'', [''stripePaymentIntentId'']),
      (''by_status'', [''status''])]"
  by (simp add: payments_def builder_simps)

lemma analytics_indexes:
  "indexes analytics =
     [(''by_branchId'', [''branchId'']),
      (''by_branchId_periodStart'', [''branchId'', ''periodStart'']),
      (''by_periodStart_periodEnd'', [''periodStart'', ''periodEnd''])]"
  by (simp add: analytics_def builder_simps)

lemmas schema_indexes = users_indexes branches_indexes categories_indexes menuItems_indexes
  tables_indexes orders_indexes orderItems_indexes payments_indexes analytics_indexes

text \<open>
  Claim C6. The indexes that the schema declares, collection by collection and each with
  its key fields in the declared order, are exactly the tuples of the catalogue of the
  specification: none of the catalogue is missing and none is declared beyond it.
\<close>

theorem declared_indexes_match_catalogue:
  "declared_indexes schema = index_catalogue
   \<and> set (declared_indexes schema) = set index_catalogue"
proof -
  have "declared_indexes schema = index_catalogue"
    unfolding declared_indexes_def schema_def defineSchema_def index_catalogue_def
    by (simp only: list.map concat.simps prod.case schema_indexes append.simps)
  then show ?thesis by (simp only: simp_thms)
qed

lemma payments_documentType:
  "documentType payments =
     [(''orderId'', v_id ''orders''),
      (''stripePaymentIntentId'', v_optional v_string),
      (''amount'', v_number),
      (''status'', v_union [v_literal ''pending'', v_literal ''succeeded'',
                            v_literal ''failed'', v_literal ''refunded'']),
      (''paymentMethod'', v_union [v_literal ''card'', v_literal ''cash'', v_literal ''other'']),
      (''transactionDate'', v_optional v_number)]"
  by (simp add: payments_def builder_simps)

lemma payments_field_names:
  "field_names payments = [''orderId'', ''stripePaymentIntentId'', ''amount'', ''status'',
        ''paymentMethod'', ''transactionDate'']"
  by (simp add: field_names_def payments_documentType)

text \<open>
  Against claim C5 as stated: the declared fields of \<^verbatim>\<open>payments\<close> are not only
  \<^verbatim>\<open>orderId\<close>, \<^verbatim>\<open>stripePaymentIntentId\<close>, \<^verbatim>\<open>amount\<close>, \<^verbatim>\<open>paymentMethod\<close> and \<^verbatim>\<open>status\<close>;
  \<^verbatim>\<open>transactionDate\<close> is declared as well.
\<close>

theorem payments_field_set_differs:
  "set (field_names payments)
     \<noteq> {''orderId'', ''stripePaymentIntentId'', ''amount'', ''paymentMethod'', ''status''}"
proof
  assume eq: "set (field_names payments)
     = {''orderId'', ''stripePaymentIntentId'', ''amount'', ''paymentMethod'', ''status''}"
  have "''transactionDate'' \<in> set (field_names payments)"
    by (simp add: payments_field_names)
  with eq have "''transactionDate''
     \<in> {''orderId'', ''stripePaymentIntentId'', ''amount'', ''paymentMethod'', ''status''}"
    by (simp only:)
  then show False by simp
qed

text \<open>
  Claim C5, amended. The declared fields of \<^verbatim>\<open>payments\<close> are exactly \<^verbatim>\<open>orderId\<close>,
  \<^verbatim>\<open>stripePaymentIntentId\<close> (optional), \<^verbatim>\<open>amount\<close>, \<^verbatim>\<open>status\<close>, \<^verbatim>\<open>paymentMethod\<close> and
  \<^verbatim>\<open>transactionDate\<close> (optional, a number); \<^verbatim>\<open>status\<close> is drawn from pending, succeeded,
  failed, refunded and \<^verbatim>\<open>paymentMethod\<close> from card, cash, other.
\<close>

theorem payments_declared_fields:
  "map_of schema ''payments'' = Some payments
   \<and> field_names payments = [''orderId'', ''stripePaymentIntentId'', ''amount'', ''status'',
        ''paymentMethod'', ''transactionDate'']
   \<and> optional_fields payments = [''stripePaymentIntentId'', ''transactionDate'']
   \<and> field payments ''orderId'' = Some (v_id ''orders'')
   \<and> field payments ''stripePaymentIntentId'' = Some (v_optional v_string)
   \<and> field payments ''amount'' = Some v_number
   \<and> field payments ''transactionDate'' = Some (v_optional v_number)
   \<and> map_option enum_values (field payments ''status'')
       = Some (Some [''pending'', ''succeeded'', ''failed'', ''refunded''])
   \<and> map_option enum_values (field payments ''paymentMethod'')
       = Some (Some [''card'', ''cash'', ''other''])"
proof (intro conjI)
  show "map_of schema ''payments'' = Some payments"
    by (simp add: schema_def defineSchema_def)
  show "field_names payments = [''orderId'', ''stripePaymentIntentId'', ''amount'', ''status'',
        ''paymentMethod'', ''transactionDate'']"
    by (rule payments_field_names)
  show "optional_fields payments = [''stripePaymentIntentId'', ''transactionDate'']"
    by (simp add: optional_fields_def payments_documentType)
  show "field payments ''orderId'' = Some (v_id ''orders'')"
    by (simp add: field_def payments_documentType)
  show "field payments ''stripePaymentIntentId'' = Some (v_optional v_string)"
    by (simp add: field_def payments_documentType)
  show "field payments ''amount'' = Some v_number"
    by (simp add: field_def payments_documentType)
  show "field payments ''transactionDate'' = Some (v_optional v_number)"
    by (simp add: field_def payments_documentType)
  show "map_option enum_values (field payments ''status'')
       = Some (Some [''pending'', ''succeeded'', ''failed'', ''refunded''])"
    by (simp add: field_def payments_documentType)
  show "map_option enum_values (field payments ''paymentMethod'')
       = Some (Some [''card'', ''cash'', ''other''])"
    by (simp add: field_def payments_documentType)
qed

lemma tables_documentType:
  "documentType tables =
     [(''branchId'', v_id ''branches''), (''tableNumber'', v_string), (''capacity'', v_number),
      (''status'', v_union [v_literal ''available'', v_literal ''occupied'',
                            v_literal ''reserved''])]"
  by (simp add: tables_def builder_simps)

text \<open>
  Claim C9. \<^verbatim>\<open>tableNumber\<close> of a table is declared as a string and not as a number; a
  record whose \<^verbatim>\<open>tableNumber\<close> is a number does not conform to the table; and the key of
  the index on \<^verbatim>\<open>(branchId, tableNumber)\<close> holds the table number as a string, so that
  the table numbers \<^verbatim>\<open>"1"\<close> and \<^verbatim>\<open>"01"\<close> give different keys.
\<close>

theorem tableNumber_is_string:
  "field tables ''tableNumber'' = Some v_string
   \<and> field tables ''tableNumber'' \<noteq> Some v_number
   \<and> (doc ''tableNumber'' = Some (JNum n) \<longrightarrow> \<not> conforms tables doc)
   \<and> map_of (indexes tables) ''by_branchId_tableNumber'' = Some [''branchId'', ''tableNumber'']
   \<and> (d1 ''tableNumber'' = Some (JStr ''1'') \<and> d2 ''tableNumber'' = Some (JStr ''01'')
        \<longrightarrow> index_key [''branchId'', ''tableNumber''] d1
            \<noteq> index_key [''branchId'', ''tableNumber''] d2)"
proof (intro conjI impI)
  show "field tables ''tableNumber'' = Some v_string"
    by (simp add: field_def tables_documentType)
  show "field tables ''tableNumber'' \<noteq> Some v_number"
    by (simp add: field_def tables_documentType)
  show "map_of (indexes tables) ''by_branchId_tableNumber'' = Some [''branchId'', ''tableNumber'']"
    by (simp add: tables_indexes)
next
  assume "doc ''tableNumber'' = Some (JNum n)"
  then show "\<not> conforms tables doc"
    by (simp add: conforms_def tables_documentType)
next
  assume "d1 ''tableNumber'' = Some (JStr ''1'') \<and> d2 ''tableNumber'' = Some (JStr ''01'')"
  then show "index_key [''branchId'', ''tableNumber''] d1
            \<noteq> index_key [''branchId'', ''tableNumber''] d2"
    by (simp add: index_key_def)
qed

text \<open>
  Three sample tables of one branch, numbered \<^verbatim>\<open>"1"\<close>, \<^verbatim>\<open>"01"\<close> and the number 1: the
  first two conform and have different keys, the third does not conform.
\<close>

theorem tableNumber_is_string_witness:
  "table_numeric ''tableNumber'' = Some (JNum 1)
   \<and> \<not> conforms tables table_numeric
   \<and> conforms tables table_one \<and> conforms tables table_zero_one
   \<and> table_one ''branchId'' = table_zero_one ''branchId''
   \<and> table_one ''tableNumber'' = Some (JStr ''1'')
   \<and> table_zero_one ''tableNumber'' = Some (JStr ''01'')
   \<and> index_key [''branchId'', ''tableNumber''] table_one
       \<noteq> index_key [''branchId'', ''tableNumber''] table_zero_one"
proof -
  note inst = tableNumber_is_string [of table_numeric 1 table_one table_zero_one]
  have numeric: "table_numeric ''tableNumber'' = Some (JNum 1)"
    by (simp add: table_numeric_def)
  have strings: "table_one ''tableNumber'' = Some (JStr ''1'')
      \<and> table_zero_one ''tableNumber'' = Some (JStr ''01'')"
    by (simp add: table_one_def table_zero_one_def)
  have rejected: "\<not> conforms tables table_numeric"
    by (rule mp [OF conjunct1 [OF conjunct2 [OF conjunct2 [OF inst]]] numeric])
  have keys: "index_key [''branchId'', ''tableNumber''] table_one
       \<noteq> index_key [''branchId'', ''tableNumber''] table_zero_one"
    by (rule mp [OF conjunct2 [OF conjunct2 [OF conjunct2 [OF conjunct2 [OF inst]]]] strings])
  have accepted: "conforms tables table_one" "conforms tables table_zero_one"
    by (simp_all add: conforms_def tables_documentType table_one_def table_zero_one_def)
  have branch: "table_one ''branchId'' = table_zero_one ''branchId''"
    by (simp add: table_one_def table_zero_one_def)
  show ?thesis
    by (intro conjI numeric rejected accepted branch conjunct1 [OF strings]
        conjunct2 [OF strings] keys)
qed

end
